theory Spec2Isabelle
  imports Main "HOL-Library.AList" "HOL-Library.Sublist"
begin

section \<open>GoChat: server bootstrap and service worker\<close>

text \<open>
  The repository's source is one file holding two programs: the backend bootstrap
  (Express middleware wiring, the two rate limiters, the Socket.IO authentication
  middleware) and the browser-side service worker. Both are embedded below, function by
  function. Packages that the source only calls (\<open>jsonwebtoken\<close>, \<open>express-rate-limit\<close>,
  \<open>cors\<close>, Express's mount-path matching, the browser's \<open>fetch\<close>) are parameters or are
  modelled from their documented contract, as noted at each definition.
\<close>

subsection \<open>JavaScript values and truthiness\<close>

datatype jsval = JUndefined | JNull | JBool bool | JNum int | JStr string | JObject

text \<open>What \<open>!v\<close> and \<open>a || b\<close> test: \<open>undefined\<close>, \<open>null\<close>, \<open>false\<close>, \<open>0\<close> and the
  empty string are falsy, every object and array is truthy.\<close>

fun truthy :: "jsval \<Rightarrow> bool" where
  "truthy JUndefined = False"
| "truthy JNull = False"
| "truthy (JBool b) = b"
| "truthy (JNum n) = (n \<noteq> 0)"
| "truthy (JStr s) = (s \<noteq> [])"
| "truthy JObject = True"

definition js_or :: "jsval \<Rightarrow> jsval \<Rightarrow> jsval" where
  "js_or a b = (if truthy a then a else b)"

definition startsWith :: "string \<Rightarrow> string \<Rightarrow> bool" where
  "startsWith s p = (take (length p) s = p)"

subsection \<open>WebSocket authentication middleware (\<open>io.use\<close>)\<close>

text \<open>
  \<open>socket.handshake\<close>: the \<open>auth\<close> payload's \<open>token\<close> field, the query string's
  \<open>token\<close> field and the \<open>authorization\<close> request header. The middleware reads the
  first two only.
\<close>

record handshake =
  auth_token :: jsval
  query_token :: jsval
  authorization :: jsval

record socket =
  hs :: handshake
  userId :: jsval
  username :: jsval

text \<open>The payload \<open>jwt.verify\<close> returns; a field the payload lacks reads as \<open>undefined\<close>.\<close>

record decoded =
  d_userId :: jsval
  d_username :: jsval

text \<open>The two errors the middleware constructs, with their messages as UTF-8 bytes:
  \<open>new Error('Autenticacao necessaria')\<close> and \<open>new Error('Token invalido')\<close>, written in
  the source with a cedilla, a tilde and two acute accents.\<close>

datatype ws_error = Error string

definition auth_required :: ws_error where
  "auth_required = Error (''Autentica'' @ [CHR 0xC3, CHR 0xA7, CHR 0xC3, CHR 0xA3] @ ''o necess''
      @ [CHR 0xC3, CHR 0xA1] @ ''ria'')"

definition token_invalid :: ws_error where
  "token_invalid = Error (''Token inv'' @ [CHR 0xC3, CHR 0xA1] @ ''lido'')"

text \<open>\<open>process.env.JWT_SECRET || 'gochat-secret-key'\<close>: an unset or empty variable gives
  the default.\<close>

definition jwt_secret :: "string option \<Rightarrow> string" where
  "jwt_secret env = (case env of None \<Rightarrow> ''gochat-secret-key''
     | Some s \<Rightarrow> if s \<noteq> [] then s else ''gochat-secret-key'')"

definition handshake_token :: "socket \<Rightarrow> jsval" where
  "handshake_token s = js_or (auth_token (hs s)) (query_token (hs s))"

text \<open>
  The middleware. \<open>verify token secret\<close> stands for \<open>jwt.verify(token, secret)\<close> of the
  \<open>jsonwebtoken\<close> package: \<open>None\<close> when it throws (malformed, expired, bad signature, not
  a string), the decoded payload otherwise. The result is the argument handed to
  \<open>next\<close> (\<open>None\<close> for \<open>next()\<close>) together with the socket as the middleware leaves it.
\<close>

definition io_use ::
  "(jsval \<Rightarrow> string \<Rightarrow> decoded option) \<Rightarrow> string option \<Rightarrow> socket \<Rightarrow> ws_error option \<times> socket" where
  "io_use verify env s =
     (let token = handshake_token s in
      if \<not> truthy token then (Some auth_required, s)
      else (case verify token (jwt_secret env) of
              Some d \<Rightarrow> (None, s\<lparr>userId := d_userId d, username := d_username d\<rparr>)
            | None \<Rightarrow> (Some token_invalid, s)))"

text \<open>
  Socket.IO runs the middleware before it admits a connection: when \<open>next\<close> receives an
  error the connection is refused and no \<open>connection\<close> listener runs; otherwise the
  listeners installed by \<open>socketHandler(io)\<close> run on the socket. The listener is a
  parameter (its module is not part of the source): any function from the server's
  state and the socket to the new state.
\<close>

definition ws_connect ::
  "(jsval \<Rightarrow> string \<Rightarrow> decoded option) \<Rightarrow> string option \<Rightarrow> ('core \<Rightarrow> socket \<Rightarrow> 'core)
     \<Rightarrow> 'core \<Rightarrow> socket \<Rightarrow> (ws_error + socket) \<times> 'core" where
  "ws_connect verify env socketHandler core s =
     (case io_use verify env s of
        (Some e, s') \<Rightarrow> (Inl e, core)
      | (None, s') \<Rightarrow> (Inr s', socketHandler core s'))"

subsection \<open>Service worker: the \<open>fetch\<close> listener\<close>

record request =
  req_method :: string
  url :: string
  pathname :: string
  mode :: string

record response =
  status :: nat
  statusText :: string
  body :: string

text \<open>\<open>caches\<close>: the named caches in creation order, each a list of entries keyed by
  request URL.\<close>

type_synonym cache = "(string \<times> response) list"
type_synonym cache_storage = "(string \<times> cache) list"

definition CACHE_NAME :: string where
  "CACHE_NAME = ''gochat-v1''"

text \<open>\<open>caches.match(request)\<close>: the first entry for the URL over all caches, in order.\<close>

fun caches_match :: "cache_storage \<Rightarrow> string \<Rightarrow> response option" where
  "caches_match [] k = None"
| "caches_match ((n, c) # cs) k =
     (case map_of c k of Some r \<Rightarrow> Some r | None \<Rightarrow> caches_match cs k)"

text \<open>\<open>caches.open(name).then(cache => cache.put(request, response))\<close>: \<open>open\<close> creates
  the cache when it is absent, \<open>put\<close> replaces the entry of the same URL.\<close>

definition cache_put :: "cache_storage \<Rightarrow> string \<Rightarrow> string \<Rightarrow> response \<Rightarrow> cache_storage" where
  "cache_put cs name k r =
     AList.update name (AList.update k r (case map_of cs name of Some c \<Rightarrow> c | None \<Rightarrow> [])) cs"

definition offline :: response where
  "offline = \<lparr>status = 503, statusText = ''Service Unavailable'', body = ''Offline''\<rparr>"

text \<open>
  What the listener does with an event: it returns without \<open>respondWith\<close>
  (\<open>NotIntercepted\<close>, the browser handles the request itself), or it answers with the
  value its promise resolves to (\<open>None\<close> when \<open>caches.match('/index.html')\<close> finds
  nothing and resolves to \<open>undefined\<close>).
\<close>

datatype fetch_result = NotIntercepted | RespondWith "response option"

text \<open>
  The listener. \<open>network r\<close> is the browser's \<open>fetch(r)\<close>: \<open>None\<close> when the promise
  rejects, the response (of any status) otherwise. \<open>origin\<close> is the worker's origin,
  against which \<open>'/index.html'\<close> is resolved. The storage returned is the one after the
  listener's \<open>cache.put\<close> has run.
\<close>

definition sw_fetch ::
  "string \<Rightarrow> (request \<Rightarrow> response option) \<Rightarrow> cache_storage \<Rightarrow> request
     \<Rightarrow> fetch_result \<times> cache_storage" where
  "sw_fetch origin network caches r =
     (if req_method r \<noteq> ''GET'' then (NotIntercepted, caches)
      else if startsWith (pathname r) ''/api/'' \<or> startsWith (pathname r) ''/socket.io/''
        then (NotIntercepted, caches)
      else (case network r of
              Some resp \<Rightarrow> (RespondWith (Some resp), cache_put caches CACHE_NAME (url r) resp)
            | None \<Rightarrow>
                (case caches_match caches (url r) of
                   Some cachedResponse \<Rightarrow> (RespondWith (Some cachedResponse), caches)
                 | None \<Rightarrow>
                     if mode r = ''navigate''
                     then (RespondWith (caches_match caches (origin @ ''/index.html'')), caches)
                     else (RespondWith (Some offline), caches))))"

subsection \<open>HTTP rate limiting (\<open>limiter\<close>, \<open>authLimiter\<close>)\<close>

record json_message =
  success :: bool
  message :: string

record rl_options =
  windowMs :: nat
  max_hits :: nat
  rl_message :: json_message

definition limiter :: rl_options where
  "limiter = \<lparr>windowMs = 15 * 60 * 1000, max_hits = 100,
     rl_message = \<lparr>success = False,
       message = ''Muitas requisi'' @ [CHR 0xC3, CHR 0xA7, CHR 0xC3, CHR 0xB5]
                 @ ''es. Tente novamente mais tarde.''\<rparr>\<rparr>"

definition authLimiter :: rl_options where
  "authLimiter = \<lparr>windowMs = 15 * 60 * 1000, max_hits = 5,
     rl_message = \<lparr>success = False,
       message = ''Muitas tentativas de login. Tente novamente em 15 minutos.''\<rparr>\<rparr>"

text \<open>
  The contract of \<open>express-rate-limit\<close> with its default memory store and default key
  (the client's IP): the store keeps, per key, the number of hits of the current window
  and the time the window ends; a hit in a running window counts one more, a hit after
  the window's end opens a new window of \<open>windowMs\<close> milliseconds; the request is
  refused, with status 429 and \<open>message\<close> as its body, when its hit count exceeds
  \<open>max\<close>. Times are milliseconds.
\<close>

type_synonym rl_store = "string \<rightharpoonup> nat \<times> nat"


definition rl_increment :: "rl_options \<Rightarrow> rl_store \<Rightarrow> nat \<Rightarrow> string \<Rightarrow> nat \<times> rl_store" where
  "rl_increment opts st now k =
     (case st k of
        Some (hits, resetTime) \<Rightarrow>
          if now < resetTime then (hits + 1, st(k \<mapsto> (hits + 1, resetTime)))
          else (1, st(k \<mapsto> (1, now + windowMs opts)))
      | None \<Rightarrow> (1, st(k \<mapsto> (1, now + windowMs opts))))"

definition rateLimit :: "rl_options \<Rightarrow> rl_store \<Rightarrow> nat \<Rightarrow> string \<Rightarrow> json_message option \<times> rl_store" where
  "rateLimit opts st now k =
     (case rl_increment opts st now k of
        (totalHits, st') \<Rightarrow>
          (if totalHits > max_hits opts then Some (rl_message opts) else None, st'))"

record http_request =
  ip :: string
  http_method :: string
  path :: string

record limits =
  limiter_store :: rl_store
  authLimiter_store :: rl_store

text \<open>
  Express's test that a request path lies under a mount path of \<open>app.use(path, fn)\<close>:
  the path begins with the mount path and continues with \<open>/\<close> or ends there, letter
  case being ignored (case-sensitive routing is off by default).
\<close>

definition to_lower :: "char \<Rightarrow> char" where
  "to_lower c = (case map_of (zip ''ABCDEFGHIJKLMNOPQRSTUVWXYZ'' ''abcdefghijklmnopqrstuvwxyz'') c of
       Some l \<Rightarrow> l | None \<Rightarrow> c)"

fun path_under :: "string \<Rightarrow> string \<Rightarrow> bool" where
  "path_under [] [] = True"
| "path_under [] (c # cs) = (c = CHR ''/'')"
| "path_under (m # ms) [] = False"
| "path_under (m # ms) (c # cs) = (m = c \<and> path_under ms cs)"

definition mounted :: "string \<Rightarrow> string \<Rightarrow> bool" where
  "mounted mp p = path_under (map to_lower mp) (map to_lower p)"

text \<open>
  What becomes of a request: Socket.IO answers it (\<open>SocketIO\<close>), \<open>cors\<close> ends it as a
  preflight with the given status, a limiter refuses it with a status and a JSON
  body, or it goes on to the body parsers, the logger and the routes (\<open>Routed\<close>).
\<close>

datatype http_result = SocketIO | Preflight nat | Rejected nat json_message | Routed

text \<open>
  The path of a request through the server, in the order the source installs the
  handlers. \<open>socketIo(server, ...)\<close> puts Socket.IO in front of the Express app on the
  HTTP server: a request whose URL begins with \<open>/socket.io/\<close> is answered by Socket.IO
  and never enters Express. In Express, \<open>helmet\<close> only sets headers; \<open>cors\<close>, given no
  \<open>preflightContinue\<close>, ends every \<open>OPTIONS\<close> request with status 204; then comes the
  global limiter, then \<open>authLimiter\<close> where the path lies under one of its two mount
  paths (one limiter instance, so one store for both), then the rest of the chain.
\<close>

definition http_chain :: "limits \<Rightarrow> nat \<Rightarrow> http_request \<Rightarrow> http_result \<times> limits" where
  "http_chain L now r =
     (if startsWith (path r) ''/socket.io/'' then (SocketIO, L)
      else if http_method r = ''OPTIONS'' then (Preflight 204, L)
      else
        (case rateLimit limiter (limiter_store L) now (ip r) of
           (Some m, g) \<Rightarrow> (Rejected 429 m, L\<lparr>limiter_store := g\<rparr>)
         | (None, g) \<Rightarrow>
             if mounted ''/api/auth/login'' (path r) \<or> mounted ''/api/auth/register'' (path r)
             then (case rateLimit authLimiter (authLimiter_store L) now (ip r) of
                     (Some m, a) \<Rightarrow> (Rejected 429 m, \<lparr>limiter_store = g, authLimiter_store = a\<rparr>)
                   | (None, a) \<Rightarrow> (Routed, \<lparr>limiter_store = g, authLimiter_store = a\<rparr>))
             else (Routed, L\<lparr>limiter_store := g\<rparr>)))"


section \<open>The presence and fan-out core of the specification\<close>

text \<open>
  The module behind \<open>socketHandler(io)\<close> is not part of the source. The specification
  describes the core it must provide: a connection registry, a channel manager, a
  message router and a rate guard. The definitions of this section are written from
  those sections of the specification.
\<close>

type_synonym connectionId = nat
type_synonym channelId = string

record identity =
  i_userId :: string
  i_username :: string

record connection =
  ident :: identity
  transportHandle :: nat
  joinedChannels :: "channelId set"
  lastActivityAt :: nat

datatype core_error =
  AuthenticationError | NotAuthenticatedError | NotMemberError | RateLimitedError | DeliveryError

record outbound =
  o_channelId :: channelId
  o_senderId :: connectionId
  o_payload :: string
  o_timestamp :: nat

text \<open>What a connection's transport has been sent: events, and structured rejections
  of its own requests.\<close>

datatype frame = Event outbound | Rejection core_error

text \<open>Modelled from the spec: the state of the core (sections 3 and 4), which the
  absent \<open>socketHandler\<close> module would own: the connection table, the channel table
  (a channel record is its member set), the next connection id to allocate, what has
  been written to each connection's transport, and the rate guard's admitted-event
  times per connection.\<close>

record core =
  connections :: "connectionId \<rightharpoonup> connection"
  channels :: "channelId \<rightharpoonup> connectionId set"
  nextConnectionId :: connectionId
  outbox :: "connectionId \<Rightarrow> frame list"
  history :: "connectionId \<Rightarrow> nat list"

definition init_core :: core where
  "init_core = \<lparr>connections = Map.empty, channels = Map.empty, nextConnectionId = 0,
     outbox = (\<lambda>_. []), history = (\<lambda>_. [])\<rparr>"

text \<open>Modelled from the spec: \<open>membersOf(channelId)\<close> of section 4.3, the snapshot of a
  channel's members, empty for a channel that does not exist.\<close>

definition membersOf :: "core \<Rightarrow> channelId \<Rightarrow> connectionId set" where
  "membersOf c ch = (case channels c ch of None \<Rightarrow> {} | Some m \<Rightarrow> m)"

definition joinedOf :: "core \<Rightarrow> connectionId \<Rightarrow> channelId set" where
  "joinedOf c cid = (case connections c cid of None \<Rightarrow> {} | Some k \<Rightarrow> joinedChannels k)"

text \<open>Modelled from the spec: \<open>register(identity, transportHandle)\<close> of section 4.2;
  it allocates a new connection record and always succeeds.\<close>

definition register :: "identity \<Rightarrow> nat \<Rightarrow> nat \<Rightarrow> core \<Rightarrow> connectionId \<times> core" where
  "register i h now c =
     (nextConnectionId c,
      c\<lparr>connections := (connections c)(nextConnectionId c \<mapsto>
           \<lparr>ident = i, transportHandle = h, joinedChannels = {}, lastActivityAt = now\<rparr>),
        nextConnectionId := Suc (nextConnectionId c)\<rparr>)"

text \<open>Removing one member from a channel record: the record is deleted when its
  membership becomes empty (section 4.3).\<close>

definition evict :: "connectionId \<Rightarrow> connectionId set option \<Rightarrow> connectionId set option" where
  "evict cid m = (case m of None \<Rightarrow> None
     | Some s \<Rightarrow> if s - {cid} = {} then None else Some (s - {cid}))"

text \<open>Modelled from the spec: \<open>unregister(connectionId)\<close> of section 4.2; it removes the
  connection and evicts it from every channel it belonged to, and is a no-op on a
  connection already removed.\<close>

definition unregister :: "connectionId \<Rightarrow> core \<Rightarrow> core" where
  "unregister cid c =
     (case connections c cid of
        None \<Rightarrow> c
      | Some k \<Rightarrow>
          c\<lparr>connections := (connections c)(cid := None),
            channels := (\<lambda>ch. if ch \<in> joinedChannels k then evict cid (channels c ch)
                                else channels c ch)\<rparr>)"

text \<open>Modelled from the spec: \<open>touch(connectionId)\<close> of section 4.2.\<close>

definition touch :: "connectionId \<Rightarrow> nat \<Rightarrow> core \<Rightarrow> core" where
  "touch cid now c =
     (case connections c cid of
        None \<Rightarrow> c
      | Some k \<Rightarrow> c\<lparr>connections := (connections c)(cid \<mapsto> k\<lparr>lastActivityAt := now\<rparr>)\<rparr>)"

text \<open>Modelled from the spec: \<open>join(connectionId, channelId)\<close> of section 4.3; it creates
  the channel record if absent and adds the connection, and fails with
  \<open>NotAuthenticatedError\<close> on an unknown connection id.\<close>

definition join :: "connectionId \<Rightarrow> channelId \<Rightarrow> core \<Rightarrow> core_error + core" where
  "join cid ch c =
     (case connections c cid of
        None \<Rightarrow> Inl NotAuthenticatedError
      | Some k \<Rightarrow>
          Inr (c\<lparr>connections := (connections c)(cid \<mapsto>
                    k\<lparr>joinedChannels := insert ch (joinedChannels k)\<rparr>),
                 channels := (channels c)(ch \<mapsto> insert cid (membersOf c ch))\<rparr>))"

text \<open>Modelled from the spec: \<open>leave(connectionId, channelId)\<close> of section 4.3, with the
  \<open>NotMemberError\<close> of section 7 for a channel the connection is not in; it removes the
  membership and deletes a channel record left empty.\<close>

definition leave :: "connectionId \<Rightarrow> channelId \<Rightarrow> core \<Rightarrow> core_error + core" where
  "leave cid ch c =
     (if cid \<notin> membersOf c ch then Inl NotMemberError
      else Inr (c\<lparr>connections :=
                    (case connections c cid of
                       None \<Rightarrow> connections c
                     | Some k \<Rightarrow> (connections c)(cid \<mapsto>
                         k\<lparr>joinedChannels := joinedChannels k - {ch}\<rparr>)),
                  channels := (channels c)(ch := evict cid (channels c ch))\<rparr>))"

text \<open>The router's options: whether the sender is left out of its own fan-out.\<close>

record publish_config =
  excludeSelf :: bool

record delivery =
  attempted :: "connectionId set"
  failed :: "connectionId set"

text \<open>Modelled from the spec: \<open>publish(senderConnectionId, channelId, payload)\<close> of
  section 4.4. It fails with \<open>NotMemberError\<close> when the sender is not a member; otherwise
  it writes the outbound event to the transport of each member (but the sender, when
  self-exclusion is on). \<open>broken\<close> is the set of connections whose transport write fails
  at this call: their failure is isolated, the others still receive the event.\<close>

definition publish ::
  "publish_config \<Rightarrow> connectionId \<Rightarrow> channelId \<Rightarrow> string \<Rightarrow> nat \<Rightarrow> connectionId set \<Rightarrow> core
     \<Rightarrow> core_error + delivery \<times> core" where
  "publish cfg sender ch payload now broken c =
     (if sender \<notin> membersOf c ch then Inl NotMemberError
      else
        let recipients = (if excludeSelf cfg then membersOf c ch - {sender} else membersOf c ch);
            ev = Event \<lparr>o_channelId = ch, o_senderId = sender, o_payload = payload,
                        o_timestamp = now\<rparr>
        in Inr (\<lparr>attempted = recipients, failed = recipients \<inter> broken\<rparr>,
                c\<lparr>outbox := (\<lambda>r. if r \<in> recipients \<and> r \<notin> broken then outbox c r @ [ev]
                                   else outbox c r)\<rparr>))"

record guard_config =
  g_windowMs :: nat
  g_maxEvents :: nat

text \<open>Modelled from the spec: \<open>admit(connectionId)\<close> of section 4.5, a sliding-window
  counter per connection: an event is admitted when fewer than \<open>maxEvents\<close> admitted
  events of the connection lie within the last \<open>windowMs\<close> milliseconds.\<close>

definition recent :: "guard_config \<Rightarrow> nat \<Rightarrow> nat list \<Rightarrow> nat list" where
  "recent g now ts = filter (\<lambda>t. now < t + g_windowMs g) ts"

definition admit :: "guard_config \<Rightarrow> nat \<Rightarrow> connectionId \<Rightarrow> core \<Rightarrow> bool \<times> core" where
  "admit g now cid c =
     (let r = recent g now (history c cid) in
      if length r < g_maxEvents g
      then (True, c\<lparr>history := (history c)(cid := r @ [now])\<rparr>)
      else (False, c\<lparr>history := (history c)(cid := r)\<rparr>))"

text \<open>A structured rejection, written to the originating connection only (section 7).\<close>

definition signal :: "connectionId \<Rightarrow> core_error \<Rightarrow> core \<Rightarrow> core" where
  "signal cid e c = c\<lparr>outbox := (outbox c)(cid := outbox c cid @ [Rejection e])\<rparr>"

text \<open>Modelled from the spec: the router's handling of an inbound \<open>publish\<close> event
  (sections 4.4 and 4.5): the rate guard is asked first; on reject \<open>publish\<close> is skipped
  and \<open>RateLimitedError\<close> goes back to the sender; an error of \<open>publish\<close> goes back to
  the sender too.\<close>

definition route_publish ::
  "guard_config \<Rightarrow> publish_config \<Rightarrow> connectionId \<Rightarrow> channelId \<Rightarrow> string \<Rightarrow> nat
     \<Rightarrow> connectionId set \<Rightarrow> core \<Rightarrow> (core_error + delivery) \<times> core" where
  "route_publish g cfg sender ch payload now broken c =
     (case admit g now sender c of
        (False, c') \<Rightarrow> (Inl RateLimitedError, signal sender RateLimitedError c')
      | (True, c') \<Rightarrow>
          (case publish cfg sender ch payload now broken c' of
             Inl e \<Rightarrow> (Inl e, signal sender e c')
           | Inr (d, c'') \<Rightarrow> (Inr d, c'')))"

text \<open>The operations a client or the transport can cause, and their effect on the
  core; an operation that fails is reported to its connection and changes nothing
  else.\<close>

datatype op =
    Register identity nat
  | Unregister connectionId
  | Touch connectionId
  | Join connectionId channelId
  | Leave connectionId channelId
  | Publish connectionId channelId string "connectionId set"

fun exec :: "guard_config \<Rightarrow> publish_config \<Rightarrow> core \<Rightarrow> nat \<times> op \<Rightarrow> core" where
  "exec g cfg c (now, Register i h) = snd (register i h now c)"
| "exec g cfg c (now, Unregister cid) = unregister cid c"
| "exec g cfg c (now, Touch cid) = touch cid now c"
| "exec g cfg c (now, Join cid ch) =
     (case join cid ch c of Inl e \<Rightarrow> signal cid e c | Inr c' \<Rightarrow> c')"
| "exec g cfg c (now, Leave cid ch) =
     (case leave cid ch c of Inl e \<Rightarrow> signal cid e c | Inr c' \<Rightarrow> c')"
| "exec g cfg c (now, Publish cid ch payload broken) =
     snd (route_publish g cfg cid ch payload now broken c)"

definition run :: "guard_config \<Rightarrow> publish_config \<Rightarrow> core \<Rightarrow> (nat \<times> op) list \<Rightarrow> core" where
  "run g cfg c trace = foldl (exec g cfg) c trace"

text \<open>The states the core can be in: those a sequence of operations leads to from the
  empty core.\<close>

inductive reachable :: "guard_config \<Rightarrow> publish_config \<Rightarrow> core \<Rightarrow> bool"
  for g :: guard_config and cfg :: publish_config where
  reachable_init: "reachable g cfg init_core"
| reachable_step: "reachable g cfg c \<Longrightarrow> reachable g cfg (exec g cfg c (now, x))"

text \<open>What recipient \<open>r\<close> has observed from sender \<open>s\<close> on channel \<open>ch\<close>: the payloads of
  the events on its transport, in order of arrival.\<close>

fun frame_from :: "connectionId \<Rightarrow> channelId \<Rightarrow> frame \<Rightarrow> string option" where
  "frame_from s ch (Event e) = (if o_senderId e = s \<and> o_channelId e = ch then Some (o_payload e) else None)"
| "frame_from s ch (Rejection e) = None"

definition observed :: "core \<Rightarrow> connectionId \<Rightarrow> connectionId \<Rightarrow> channelId \<Rightarrow> string list" where
  "observed c r s ch = List.map_filter (frame_from s ch) (outbox c r)"

text \<open>The payloads of the \<open>publish\<close> requests of sender \<open>s\<close> on channel \<open>ch\<close> in a trace, in
  order of invocation.\<close>

fun published :: "connectionId \<Rightarrow> channelId \<Rightarrow> (nat \<times> op) list \<Rightarrow> string list" where
  "published s ch [] = []"
| "published s ch ((now, Publish cid ch' payload broken) # xs) =
     (if cid = s \<and> ch' = ch then payload # published s ch xs else published s ch xs)"
| "published s ch (x # xs) = published s ch xs"

text \<open>Modelled from the spec: a sender's successive \<open>publish\<close> calls on one channel
  (section 4.4, ordering guarantee), each with its payload, its time and the set of
  transports whose write fails at that call; a call that fails leaves the core as it
  was.\<close>

fun publish_all ::
  "publish_config \<Rightarrow> connectionId \<Rightarrow> channelId \<Rightarrow> (string \<times> nat \<times> connectionId set) list \<Rightarrow> core \<Rightarrow> core" where
  "publish_all cfg s ch [] c = c"
| "publish_all cfg s ch ((payload, now, broken) # ps) c =
     (case publish cfg s ch payload now broken c of
        Inl e \<Rightarrow> publish_all cfg s ch ps c
      | Inr (d, c') \<Rightarrow> publish_all cfg s ch ps c')"

text \<open>The representation invariant of the registries: the two membership tables agree,
  every registered connection id lies below the next id to allocate, and no channel
  record is empty.\<close>

definition registry_inv :: "core \<Rightarrow> bool" where
  "registry_inv c \<longleftrightarrow>
     (\<forall>cid ch. ch \<in> joinedOf c cid \<longleftrightarrow> cid \<in> membersOf c ch)
     \<and> (\<forall>cid \<in> dom (connections c). cid < nextConnectionId c)
     \<and> (\<forall>ch. channels c ch \<noteq> Some {})"

section \<open>The WebSocket handshake\<close>

text \<open>
  Claim C1. A handshake whose credential is missing (no truthy token in the handshake)
  or which \<open>jwt.verify\<close> refuses (malformed, expired, badly signed) is rejected with an
  authentication error: the middleware hands the error to \<open>next\<close> and leaves the socket
  untouched, no connection listener runs, and the server state is the one before the
  handshake.
\<close>

theorem handshake_rejected_without_mutation:
  assumes "\<not> truthy (handshake_token s) \<or> verify (handshake_token s) (jwt_secret env) = None"
  shows "\<exists>e. e = (if truthy (handshake_token s) then token_invalid else auth_required)
           \<and> io_use verify env s = (Some e, s)
           \<and> ws_connect verify env socketHandler core s = (Inl e, core)"
  using assms by (auto simp: io_use_def ws_connect_def Let_def)

theorem handshake_rejected_without_mutation_witness:
  "\<not> truthy (handshake_token
       \<lparr>hs = \<lparr>auth_token = JUndefined, query_token = JStr [], authorization = JUndefined\<rparr>,
         userId = JUndefined, username = JUndefined\<rparr>)
   \<and> ws_connect (curry (map_of [((JStr ''good'', ''gochat-secret-key''), \<lparr>d_userId = JNum 7, d_username = JStr ''ana''\<rparr>)])) None (\<lambda>n s. Suc n) (0::nat)
        \<lparr>hs = \<lparr>auth_token = JUndefined, query_token = JStr [], authorization = JUndefined\<rparr>,
          userId = JUndefined, username = JUndefined\<rparr> = (Inl auth_required, 0)
   \<and> (curry (map_of [((JStr ''good'', ''gochat-secret-key''), \<lparr>d_userId = JNum 7, d_username = JStr ''ana''\<rparr>)]))
        (handshake_token
          \<lparr>hs = \<lparr>auth_token = JStr ''forged'', query_token = JStr ''good'', authorization = JUndefined\<rparr>,
            userId = JUndefined, username = JUndefined\<rparr>) (jwt_secret None) = None
   \<and> ws_connect (curry (map_of [((JStr ''good'', ''gochat-secret-key''), \<lparr>d_userId = JNum 7, d_username = JStr ''ana''\<rparr>)])) None (\<lambda>n s. Suc n) (0::nat)
        \<lparr>hs = \<lparr>auth_token = JStr ''forged'', query_token = JStr ''good'', authorization = JUndefined\<rparr>,
          userId = JUndefined, username = JUndefined\<rparr> = (Inl token_invalid, 0)"
  using handshake_rejected_without_mutation
    [of "\<lparr>hs = \<lparr>auth_token = JUndefined, query_token = JStr [], authorization = JUndefined\<rparr>,
          userId = JUndefined, username = JUndefined\<rparr>"
        "curry (map_of [((JStr ''good'', ''gochat-secret-key''), \<lparr>d_userId = JNum 7, d_username = JStr ''ana''\<rparr>)])" None "\<lambda>n s. Suc n" "0::nat"]
    handshake_rejected_without_mutation
    [of "\<lparr>hs = \<lparr>auth_token = JStr ''forged'', query_token = JStr ''good'', authorization = JUndefined\<rparr>,
          userId = JUndefined, username = JUndefined\<rparr>"
        "curry (map_of [((JStr ''good'', ''gochat-secret-key''), \<lparr>d_userId = JNum 7, d_username = JStr ''ana''\<rparr>)])" None "\<lambda>n s. Suc n" "0::nat"]
  by (simp add: handshake_token_def js_or_def jwt_secret_def)

text \<open>
  Claim C7, as stated, fails: the middleware never reads the \<open>Authorization\<close> header. A
  handshake that carries a valid token only as \<open>Authorization: Bearer good\<close> is rejected
  as unauthenticated.
\<close>

theorem bearer_header_not_read:
  "io_use (curry (map_of [((JStr ''good'', ''gochat-secret-key''), \<lparr>d_userId = JNum 7, d_username = JStr ''ana''\<rparr>)])) None
     \<lparr>hs = \<lparr>auth_token = JUndefined, query_token = JUndefined, authorization = JStr ''Bearer good''\<rparr>,
       userId = JUndefined, username = JUndefined\<rparr>
   = (Some auth_required,
      \<lparr>hs = \<lparr>auth_token = JUndefined, query_token = JUndefined, authorization = JStr ''Bearer good''\<rparr>,
       userId = JUndefined, username = JUndefined\<rparr>)"
  by (simp add: io_use_def handshake_token_def js_or_def)

text \<open>
  Claim C7, amended. The token is the \<open>token\<close> field of the handshake's \<open>auth\<close> payload
  or, when that is falsy, the query parameter \<open>token\<close>. The handshake authenticates
  exactly when that token is truthy and \<open>jwt.verify\<close> accepts it; the socket then
  carries the payload's \<open>userId\<close> and \<open>username\<close>. The \<open>Authorization\<close> header has no
  influence on the outcome.
\<close>

theorem token_from_auth_payload_or_query:
  "(fst (io_use verify env s) = None \<longleftrightarrow>
      (truthy (auth_token (hs s)) \<and> verify (auth_token (hs s)) (jwt_secret env) \<noteq> None)
      \<or> (\<not> truthy (auth_token (hs s)) \<and> truthy (query_token (hs s))
           \<and> verify (query_token (hs s)) (jwt_secret env) \<noteq> None))
   \<and> (\<forall>d. verify (handshake_token s) (jwt_secret env) = Some d \<and> truthy (handshake_token s) \<longrightarrow>
          io_use verify env s = (None, s\<lparr>userId := d_userId d, username := d_username d\<rparr>))
   \<and> fst (io_use verify env (s\<lparr>hs := (hs s)\<lparr>authorization := h\<rparr>\<rparr>)) = fst (io_use verify env s)"
  by (auto simp: io_use_def handshake_token_def js_or_def Let_def split: option.splits)

theorem token_from_auth_payload_or_query_witness:
  "io_use (curry (map_of [((JStr ''good'', ''gochat-secret-key''), \<lparr>d_userId = JNum 7, d_username = JStr ''ana''\<rparr>)])) None
     \<lparr>hs = \<lparr>auth_token = JStr [], query_token = JStr ''good'', authorization = JUndefined\<rparr>,
       userId = JUndefined, username = JUndefined\<rparr>
   = (None, \<lparr>hs = \<lparr>auth_token = JStr [], query_token = JStr ''good'', authorization = JUndefined\<rparr>,
       userId = JNum 7, username = JStr ''ana''\<rparr>)
   \<and> fst (io_use (curry (map_of [((JStr ''good'', ''gochat-secret-key''), \<lparr>d_userId = JNum 7, d_username = JStr ''ana''\<rparr>)])) None
     \<lparr>hs = \<lparr>auth_token = JStr ''good'', query_token = JUndefined, authorization = JUndefined\<rparr>,
       userId = JUndefined, username = JUndefined\<rparr>) = None"
  using token_from_auth_payload_or_query
    [of "curry (map_of [((JStr ''good'', ''gochat-secret-key''), \<lparr>d_userId = JNum 7, d_username = JStr ''ana''\<rparr>)])"
        None
        "\<lparr>hs = \<lparr>auth_token = JStr [], query_token = JStr ''good'', authorization = JUndefined\<rparr>,
          userId = JUndefined, username = JUndefined\<rparr>" JUndefined]
    token_from_auth_payload_or_query
    [of "curry (map_of [((JStr ''good'', ''gochat-secret-key''), \<lparr>d_userId = JNum 7, d_username = JStr ''ana''\<rparr>)])"
        None
        "\<lparr>hs = \<lparr>auth_token = JStr ''good'', query_token = JUndefined, authorization = JUndefined\<rparr>,
          userId = JUndefined, username = JUndefined\<rparr>" JUndefined]
  by (simp add: handshake_token_def js_or_def jwt_secret_def)

section \<open>The service worker's fetch listener\<close>

text \<open>
  Claim C8, as stated, fails: with a cached copy of \<open>/index.html\<close> present and the
  network reachable, the listener answers with the network's response, not the cached
  one.
\<close>

theorem cached_response_not_served_first:
  "caches_match [(''gochat-v1'', [(''https://gochat.app/index.html'', \<lparr>status = 200, statusText = ''OK'', body = ''cached''\<rparr>)])]
      ''https://gochat.app/index.html'' = Some \<lparr>status = 200, statusText = ''OK'', body = ''cached''\<rparr>
   \<and> fst (sw_fetch ''https://gochat.app''
     (map_of [(\<lparr>req_method = ''GET'', url = ''https://gochat.app/index.html'', pathname = ''/index.html'', mode = ''navigate''\<rparr>,
               \<lparr>status = 200, statusText = ''OK'', body = ''fresh''\<rparr>)])
     [(''gochat-v1'', [(''https://gochat.app/index.html'', \<lparr>status = 200, statusText = ''OK'', body = ''cached''\<rparr>)])]
     \<lparr>req_method = ''GET'', url = ''https://gochat.app/index.html'', pathname = ''/index.html'', mode = ''navigate''\<rparr>)
   = RespondWith (Some \<lparr>status = 200, statusText = ''OK'', body = ''fresh''\<rparr>)"
  by (simp add: sw_fetch_def startsWith_def)

text \<open>
  Claim C8, amended. The listener is network-first: for a GET request outside \<open>/api/\<close>
  and \<open>/socket.io/\<close> it answers with the network's response whenever the fetch
  succeeds. Only when the fetch fails does it consult the caches: the cached response
  for the URL if there is one, else the cached \<open>/index.html\<close> for a navigation, else a
  503 response with body \<open>Offline\<close>; the caches are then left as they are.
\<close>

theorem fetch_network_first:
  assumes "req_method r = ''GET''"
    and "\<not> startsWith (pathname r) ''/api/''"
    and "\<not> startsWith (pathname r) ''/socket.io/''"
  shows "(\<forall>resp. network r = Some resp \<longrightarrow>
            fst (sw_fetch origin network caches r) = RespondWith (Some resp))
       \<and> (network r = None \<longrightarrow>
            sw_fetch origin network caches r
              = (RespondWith (case caches_match caches (url r) of
                                Some cachedResponse \<Rightarrow> Some cachedResponse
                              | None \<Rightarrow> if mode r = ''navigate''
                                         then caches_match caches (origin @ ''/index.html'')
                                         else Some offline), caches))"
  using assms by (auto simp: sw_fetch_def split: option.splits)

theorem fetch_network_first_witness:
  "fst (sw_fetch ''https://gochat.app''
     (map_of [(\<lparr>req_method = ''GET'', url = ''https://gochat.app/index.html'', pathname = ''/index.html'', mode = ''navigate''\<rparr>,
               \<lparr>status = 200, statusText = ''OK'', body = ''fresh''\<rparr>)])
     [(''gochat-v1'', [(''https://gochat.app/index.html'', \<lparr>status = 200, statusText = ''OK'', body = ''cached''\<rparr>)])]
     \<lparr>req_method = ''GET'', url = ''https://gochat.app/index.html'', pathname = ''/index.html'', mode = ''navigate''\<rparr>)
   = RespondWith (Some \<lparr>status = 200, statusText = ''OK'', body = ''fresh''\<rparr>)
   \<and> sw_fetch ''https://gochat.app'' Map.empty
     [(''gochat-v1'', [(''https://gochat.app/index.html'', \<lparr>status = 200, statusText = ''OK'', body = ''cached''\<rparr>)])]
     \<lparr>req_method = ''GET'', url = ''https://gochat.app/index.html'', pathname = ''/index.html'', mode = ''navigate''\<rparr>
   = (RespondWith (Some \<lparr>status = 200, statusText = ''OK'', body = ''cached''\<rparr>),
      [(''gochat-v1'', [(''https://gochat.app/index.html'', \<lparr>status = 200, statusText = ''OK'', body = ''cached''\<rparr>)])])
   \<and> sw_fetch ''https://gochat.app'' Map.empty
     [(''gochat-v1'', [(''https://gochat.app/index.html'', \<lparr>status = 200, statusText = ''OK'', body = ''cached''\<rparr>)])]
     \<lparr>req_method = ''GET'', url = ''https://gochat.app/logo.png'', pathname = ''/logo.png'', mode = ''no-cors''\<rparr>
   = (RespondWith (Some offline),
      [(''gochat-v1'', [(''https://gochat.app/index.html'', \<lparr>status = 200, statusText = ''OK'', body = ''cached''\<rparr>)])])"
  using fetch_network_first
    [of "\<lparr>req_method = ''GET'', url = ''https://gochat.app/index.html'', pathname = ''/index.html'', mode = ''navigate''\<rparr>"
        "map_of [(\<lparr>req_method = ''GET'', url = ''https://gochat.app/index.html'', pathname = ''/index.html'', mode = ''navigate''\<rparr>,
               \<lparr>status = 200, statusText = ''OK'', body = ''fresh''\<rparr>)]"
        "''https://gochat.app''"
        "[(''gochat-v1'', [(''https://gochat.app/index.html'', \<lparr>status = 200, statusText = ''OK'', body = ''cached''\<rparr>)])]"]
    fetch_network_first
    [of "\<lparr>req_method = ''GET'', url = ''https://gochat.app/index.html'', pathname = ''/index.html'', mode = ''navigate''\<rparr>"
        Map.empty "''https://gochat.app''"
        "[(''gochat-v1'', [(''https://gochat.app/index.html'', \<lparr>status = 200, statusText = ''OK'', body = ''cached''\<rparr>)])]"]
    fetch_network_first
    [of "\<lparr>req_method = ''GET'', url = ''https://gochat.app/logo.png'', pathname = ''/logo.png'', mode = ''no-cors''\<rparr>"
        Map.empty "''https://gochat.app''"
        "[(''gochat-v1'', [(''https://gochat.app/index.html'', \<lparr>status = 200, statusText = ''OK'', body = ''cached''\<rparr>)])]"]
  by (simp add: startsWith_def)

text \<open>
  Claim C9. For a request whose method is not GET, or whose path starts with \<open>/api/\<close>
  or \<open>/socket.io/\<close>, the listener returns without calling \<open>respondWith\<close> and leaves
  the caches as they are.
\<close>

theorem fetch_bypasses_non_get_and_api:
  assumes "req_method r \<noteq> ''GET'' \<or> startsWith (pathname r) ''/api/'' \<or> startsWith (pathname r) ''/socket.io/''"
  shows "sw_fetch origin network caches r = (NotIntercepted, caches)"
  using assms by (auto simp: sw_fetch_def)

theorem fetch_bypasses_non_get_and_api_witness:
  "sw_fetch ''https://gochat.app''
     (map_of [(\<lparr>req_method = ''POST'', url = ''https://gochat.app/index.html'', pathname = ''/index.html'', mode = ''cors''\<rparr>,
               \<lparr>status = 200, statusText = ''OK'', body = ''net''\<rparr>)])
     [(''gochat-v1'', [(''https://gochat.app/index.html'', \<lparr>status = 200, statusText = ''OK'', body = ''cached''\<rparr>)])]
     \<lparr>req_method = ''POST'', url = ''https://gochat.app/index.html'', pathname = ''/index.html'', mode = ''cors''\<rparr>
   = (NotIntercepted,
      [(''gochat-v1'', [(''https://gochat.app/index.html'', \<lparr>status = 200, statusText = ''OK'', body = ''cached''\<rparr>)])])
   \<and> sw_fetch ''https://gochat.app'' Map.empty
     [(''gochat-v1'', [(''https://gochat.app/api/chats'', \<lparr>status = 200, statusText = ''OK'', body = ''cached''\<rparr>)])]
     \<lparr>req_method = ''GET'', url = ''https://gochat.app/api/chats'', pathname = ''/api/chats'', mode = ''cors''\<rparr>
   = (NotIntercepted,
      [(''gochat-v1'', [(''https://gochat.app/api/chats'', \<lparr>status = 200, statusText = ''OK'', body = ''cached''\<rparr>)])])
   \<and> sw_fetch ''https://gochat.app'' Map.empty []
     \<lparr>req_method = ''GET'', url = ''https://gochat.app/socket.io/?EIO=4'', pathname = ''/socket.io/'', mode = ''cors''\<rparr>
   = (NotIntercepted, [])"
  using fetch_bypasses_non_get_and_api
    [of "\<lparr>req_method = ''POST'', url = ''https://gochat.app/index.html'', pathname = ''/index.html'', mode = ''cors''\<rparr>"
        "''https://gochat.app''"
        "map_of [(\<lparr>req_method = ''POST'', url = ''https://gochat.app/index.html'', pathname = ''/index.html'', mode = ''cors''\<rparr>,
               \<lparr>status = 200, statusText = ''OK'', body = ''net''\<rparr>)]"
        "[(''gochat-v1'', [(''https://gochat.app/index.html'', \<lparr>status = 200, statusText = ''OK'', body = ''cached''\<rparr>)])]"]
    fetch_bypasses_non_get_and_api
    [of "\<lparr>req_method = ''GET'', url = ''https://gochat.app/api/chats'', pathname = ''/api/chats'', mode = ''cors''\<rparr>"
        "''https://gochat.app''" Map.empty
        "[(''gochat-v1'', [(''https://gochat.app/api/chats'', \<lparr>status = 200, statusText = ''OK'', body = ''cached''\<rparr>)])]"]
    fetch_bypasses_non_get_and_api
    [of "\<lparr>req_method = ''GET'', url = ''https://gochat.app/socket.io/?EIO=4'', pathname = ''/socket.io/'', mode = ''cors''\<rparr>"
        "''https://gochat.app''" Map.empty "[]"]
  by (simp add: startsWith_def)

section \<open>HTTP rate limiting\<close>

lemma mounted_paths:
  "mounted ''/api/auth/login'' ''/api/auth/login''"
  "mounted ''/api/auth/register'' ''/api/auth/register''"
  "\<not> mounted ''/api/auth/register'' ''/api/auth/login''"
  "\<not> mounted ''/api/auth/login'' ''/api/auth/register''"
  "\<not> mounted ''/api/auth/login'' ''/health''"
  "\<not> mounted ''/api/auth/register'' ''/health''"
  by (simp_all add: mounted_def to_lower_def)














text \<open>The auth limit from empty stores: five requests to the two auth paths pass, the
  sixth within the window is refused.\<close>

lemma sixth_auth_request_refused:
  "fst (http_chain (snd (http_chain (snd (http_chain (snd (http_chain (snd (http_chain (snd (http_chain
      \<lparr>limiter_store = Map.empty, authLimiter_store = Map.empty\<rparr>
      10 \<lparr>ip = ''10.0.0.7'', http_method = ''POST'', path = ''/api/auth/login''\<rparr>))
      20 \<lparr>ip = ''10.0.0.7'', http_method = ''POST'', path = ''/api/auth/register''\<rparr>))
      30 \<lparr>ip = ''10.0.0.7'', http_method = ''POST'', path = ''/api/auth/login''\<rparr>))
      40 \<lparr>ip = ''10.0.0.7'', http_method = ''POST'', path = ''/api/auth/login''\<rparr>))
      50 \<lparr>ip = ''10.0.0.7'', http_method = ''POST'', path = ''/api/auth/login''\<rparr>))
      60 \<lparr>ip = ''10.0.0.7'', http_method = ''POST'', path = ''/api/auth/login''\<rparr>)
   = Rejected 429 (rl_message authLimiter)"
  by (simp add: http_chain_def rateLimit_def rl_increment_def limiter_def authLimiter_def
        mounted_paths startsWith_def)

section \<open>The registries\<close>

lemma members_evict:
  "(case evict cid m of None \<Rightarrow> {} | Some s \<Rightarrow> s) = (case m of None \<Rightarrow> {} | Some s \<Rightarrow> s) - {cid}"
  by (auto simp: evict_def split: option.splits if_splits)

lemma evict_nonempty: "m \<noteq> Some {} \<Longrightarrow> evict cid m \<noteq> Some {}"
  by (auto simp: evict_def split: option.splits if_splits)

lemma joined_unknown: "connections c cid = None \<Longrightarrow> joinedOf c cid = {}"
  by (simp add: joinedOf_def)

lemma register_simps:
  "joinedOf (snd (register i h now c)) x = (if x = nextConnectionId c then {} else joinedOf c x)"
  "membersOf (snd (register i h now c)) y = membersOf c y"
  "channels (snd (register i h now c)) = channels c"
  "nextConnectionId (snd (register i h now c)) = Suc (nextConnectionId c)"
  "dom (connections (snd (register i h now c))) = insert (nextConnectionId c) (dom (connections c))"
  "outbox (snd (register i h now c)) = outbox c"
  by (auto simp: register_def joinedOf_def membersOf_def)

lemma touch_simps:
  "joinedOf (touch cid now c) x = joinedOf c x"
  "membersOf (touch cid now c) y = membersOf c y"
  "channels (touch cid now c) = channels c"
  "nextConnectionId (touch cid now c) = nextConnectionId c"
  "dom (connections (touch cid now c)) = dom (connections c)"
  "outbox (touch cid now c) = outbox c"
  by (auto simp: touch_def joinedOf_def membersOf_def split: option.splits)

lemma signal_simps:
  "joinedOf (signal cid e c) x = joinedOf c x"
  "membersOf (signal cid e c) y = membersOf c y"
  "channels (signal cid e c) = channels c"
  "nextConnectionId (signal cid e c) = nextConnectionId c"
  "connections (signal cid e c) = connections c"
  "outbox (signal cid e c) r = (if r = cid then outbox c r @ [Rejection e] else outbox c r)"
  by (auto simp: signal_def joinedOf_def membersOf_def)

lemma join_simps:
  assumes "join cid ch c = Inr c'"
  shows "joinedOf c' x = (if x = cid then insert ch (joinedOf c cid) else joinedOf c x)"
    and "membersOf c' y = (if y = ch then insert cid (membersOf c ch) else membersOf c y)"
    and "channels c' y = (if y = ch then Some (insert cid (membersOf c ch)) else channels c y)"
    and "nextConnectionId c' = nextConnectionId c"
    and "dom (connections c') = dom (connections c)"
    and "outbox c' = outbox c"
  using assms by (auto simp: join_def joinedOf_def membersOf_def split: option.splits if_splits)

lemma leave_simps:
  assumes "leave cid ch c = Inr c'"
  shows "joinedOf c' x = (if x = cid then joinedOf c cid - {ch} else joinedOf c x)"
    and "membersOf c' y = (if y = ch then membersOf c ch - {cid} else membersOf c y)"
    and "channels c' y = (if y = ch then evict cid (channels c ch) else channels c y)"
    and "nextConnectionId c' = nextConnectionId c"
    and "dom (connections c') = dom (connections c)"
    and "outbox c' = outbox c"
  using assms members_evict[of cid "channels c ch"]
  by (auto simp: leave_def joinedOf_def membersOf_def split: option.splits if_splits)

lemma unregister_unknown: "connections c cid = None \<Longrightarrow> unregister cid c = c"
  by (simp add: unregister_def)

lemma unregister_simps:
  "joinedOf (unregister cid c) x = (if x = cid then {} else joinedOf c x)"
  "membersOf (unregister cid c) y = (if y \<in> joinedOf c cid then membersOf c y - {cid} else membersOf c y)"
  "channels (unregister cid c) y = (if y \<in> joinedOf c cid then evict cid (channels c y) else channels c y)"
  "nextConnectionId (unregister cid c) = nextConnectionId c"
  "dom (connections (unregister cid c)) = dom (connections c) - {cid}"
  "outbox (unregister cid c) = outbox c"
  using members_evict[of cid "channels c y"]
  by (auto simp: unregister_def joinedOf_def membersOf_def split: option.splits)

lemma admit_simps:
  "joinedOf (snd (admit g now cid c)) x = joinedOf c x"
  "membersOf (snd (admit g now cid c)) y = membersOf c y"
  "channels (snd (admit g now cid c)) = channels c"
  "nextConnectionId (snd (admit g now cid c)) = nextConnectionId c"
  "connections (snd (admit g now cid c)) = connections c"
  "outbox (snd (admit g now cid c)) = outbox c"
  by (auto simp: admit_def joinedOf_def membersOf_def Let_def)

lemma publish_simps:
  assumes "publish cfg s ch p now broken c = Inr (d, c')"
  shows "joinedOf c' x = joinedOf c x"
    and "membersOf c' y = membersOf c y"
    and "channels c' = channels c"
    and "nextConnectionId c' = nextConnectionId c"
    and "connections c' = connections c"
  using assms by (auto simp: publish_def joinedOf_def membersOf_def Let_def split: if_splits)

lemma route_publish_simps:
  "joinedOf (snd (route_publish g cfg s ch p now broken c)) x = joinedOf c x"
  "membersOf (snd (route_publish g cfg s ch p now broken c)) y = membersOf c y"
  "channels (snd (route_publish g cfg s ch p now broken c)) = channels c"
  "nextConnectionId (snd (route_publish g cfg s ch p now broken c)) = nextConnectionId c"
  "connections (snd (route_publish g cfg s ch p now broken c)) = connections c"
  using admit_simps[of g now s c]
  by (auto simp: route_publish_def signal_simps publish_simps split: prod.splits bool.splits sum.splits)

lemma inv_init: "registry_inv init_core"
  by (simp add: registry_inv_def init_core_def joinedOf_def membersOf_def)

lemma inv_fresh:
  assumes "registry_inv c"
  shows "nextConnectionId c \<notin> membersOf c ch"
proof
  assume "nextConnectionId c \<in> membersOf c ch"
  with assms have "ch \<in> joinedOf c (nextConnectionId c)" by (simp add: registry_inv_def)
  then have "nextConnectionId c \<in> dom (connections c)" using joined_unknown by fastforce
  with assms show False unfolding registry_inv_def by blast
qed

lemma inv_register: "registry_inv c \<Longrightarrow> registry_inv (snd (register i h now c))"
  using inv_fresh[of c]
  by (auto simp: registry_inv_def register_simps less_Suc_eq)

lemma inv_touch: "registry_inv c \<Longrightarrow> registry_inv (touch cid now c)"
  by (simp add: registry_inv_def touch_simps)

lemma inv_signal: "registry_inv c \<Longrightarrow> registry_inv (signal cid e c)"
  by (simp add: registry_inv_def signal_simps)

lemma inv_join: "registry_inv c \<Longrightarrow> join cid ch c = Inr c' \<Longrightarrow> registry_inv c'"
  by (auto simp: registry_inv_def join_simps)

lemma inv_leave: "registry_inv c \<Longrightarrow> leave cid ch c = Inr c' \<Longrightarrow> registry_inv c'"
  by (auto simp: registry_inv_def leave_simps evict_nonempty)

lemma inv_unregister: "registry_inv c \<Longrightarrow> registry_inv (unregister cid c)"
  by (auto simp: registry_inv_def unregister_simps evict_nonempty)

lemma inv_route_publish: "registry_inv c \<Longrightarrow> registry_inv (snd (route_publish g cfg s ch p now broken c))"
  by (simp add: registry_inv_def route_publish_simps)

lemma inv_exec: "registry_inv c \<Longrightarrow> registry_inv (exec g cfg c (now, x))"
  by (cases x)
     (auto simp: inv_register inv_unregister inv_touch inv_signal inv_route_publish
           intro: inv_join inv_leave split: sum.splits)

lemma reachable_inv: "reachable g cfg c \<Longrightarrow> registry_inv c"
  by (induction rule: reachable.induct) (auto simp: inv_init inv_exec)
lemma reachable_run: "reachable g cfg c \<Longrightarrow> reachable g cfg (run g cfg c trace)"
proof (induction trace arbitrary: c)
  case Nil
  then show ?case by (simp add: run_def)
next
  case (Cons x xs)
  obtain now y where x: "x = (now, y)" by (cases x)
  have "reachable g cfg (exec g cfg c (now, y))" using Cons.prems by (rule reachable_step)
  then have "reachable g cfg (run g cfg (exec g cfg c (now, y)) xs)" by (rule Cons.IH)
  then show ?case using x by (simp add: run_def)
qed

text \<open>
  Claim C2. In every reachable state of the core, a connection's set of joined
  channels contains a channel exactly when that channel's member set contains the
  connection; the same holds in the state after any successful join or leave. A state
  violating the biconditional is therefore not reachable.
\<close>

theorem membership_bidirectional:
  assumes "reachable g cfg c"
  shows "(ch \<in> joinedOf c cid \<longleftrightarrow> cid \<in> membersOf c ch)
       \<and> (\<forall>c'. join cid' ch' c = Inr c' \<longrightarrow> (ch \<in> joinedOf c' cid \<longleftrightarrow> cid \<in> membersOf c' ch))
       \<and> (\<forall>c'. leave cid' ch' c = Inr c' \<longrightarrow> (ch \<in> joinedOf c' cid \<longleftrightarrow> cid \<in> membersOf c' ch))"
  using reachable_inv[OF assms] inv_join[of c cid' ch'] inv_leave[of c cid' ch']
  unfolding registry_inv_def by blast

theorem membership_bidirectional_witness:
  "reachable \<lparr>g_windowMs = 1000, g_maxEvents = 3\<rparr> \<lparr>excludeSelf = True\<rparr>
     (run \<lparr>g_windowMs = 1000, g_maxEvents = 3\<rparr> \<lparr>excludeSelf = True\<rparr> init_core
        [(0, Register \<lparr>i_userId = ''u1'', i_username = ''ana''\<rparr> 11), (5, Join 0 ''X'')])
   \<and> ''X'' \<in> joinedOf (run \<lparr>g_windowMs = 1000, g_maxEvents = 3\<rparr> \<lparr>excludeSelf = True\<rparr> init_core
        [(0, Register \<lparr>i_userId = ''u1'', i_username = ''ana''\<rparr> 11), (5, Join 0 ''X'')]) 0
   \<and> 0 \<in> membersOf (run \<lparr>g_windowMs = 1000, g_maxEvents = 3\<rparr> \<lparr>excludeSelf = True\<rparr> init_core
        [(0, Register \<lparr>i_userId = ''u1'', i_username = ''ana''\<rparr> 11), (5, Join 0 ''X'')]) ''X''
   \<and> ''Y'' \<notin> joinedOf (run \<lparr>g_windowMs = 1000, g_maxEvents = 3\<rparr> \<lparr>excludeSelf = True\<rparr> init_core
        [(0, Register \<lparr>i_userId = ''u1'', i_username = ''ana''\<rparr> 11), (5, Join 0 ''X'')]) 0
   \<and> (case join 0 ''Y'' (run \<lparr>g_windowMs = 1000, g_maxEvents = 3\<rparr> \<lparr>excludeSelf = True\<rparr> init_core
        [(0, Register \<lparr>i_userId = ''u1'', i_username = ''ana''\<rparr> 11), (5, Join 0 ''X'')]) of
         Inl e \<Rightarrow> False
       | Inr c' \<Rightarrow> ''Y'' \<in> joinedOf c' 0 \<and> 0 \<in> membersOf c' ''Y'')
   \<and> (case leave 0 ''X'' (run \<lparr>g_windowMs = 1000, g_maxEvents = 3\<rparr> \<lparr>excludeSelf = True\<rparr> init_core
        [(0, Register \<lparr>i_userId = ''u1'', i_username = ''ana''\<rparr> 11), (5, Join 0 ''X'')]) of
         Inl e \<Rightarrow> False
       | Inr c' \<Rightarrow> ''X'' \<notin> joinedOf c' 0 \<and> 0 \<notin> membersOf c' ''X'')"
proof -
  let ?g = "\<lparr>g_windowMs = 1000, g_maxEvents = 3\<rparr>"
  let ?p = "\<lparr>excludeSelf = True\<rparr>"
  let ?c = "run ?g ?p init_core
        [(0, Register \<lparr>i_userId = ''u1'', i_username = ''ana''\<rparr> 11), (5, Join 0 ''X'')]"
  have r: "reachable ?g ?p ?c"
    by (rule reachable_run [OF reachable_init])
  have m: "membersOf ?c ''X'' = {0}" "membersOf ?c ''Y'' = {}"
    by (simp_all add: run_def register_def join_def membersOf_def init_core_def)
  have "\<exists>cj. join 0 ''Y'' ?c = Inr cj"
    by (simp add: run_def register_def join_def membersOf_def init_core_def)
  then obtain cj where j: "join 0 ''Y'' ?c = Inr cj" ..
  have "\<exists>cl. leave 0 ''X'' ?c = Inr cl"
    by (simp add: leave_def m)
  then obtain cl where l: "leave 0 ''X'' ?c = Inr cl" ..
  have mj: "0 \<in> membersOf cj ''Y''" by (simp add: join_simps(2) [OF j])
  have ml: "0 \<notin> membersOf cl ''X''" by (simp add: leave_simps(2) [OF l])
  have here: "''X'' \<in> joinedOf ?c 0 \<longleftrightarrow> 0 \<in> membersOf ?c ''X''"
    and there: "''Y'' \<in> joinedOf ?c 0 \<longleftrightarrow> 0 \<in> membersOf ?c ''Y''"
    and joined: "''Y'' \<in> joinedOf cj 0 \<longleftrightarrow> 0 \<in> membersOf cj ''Y''"
    and left: "''X'' \<in> joinedOf cl 0 \<longleftrightarrow> 0 \<in> membersOf cl ''X''"
    using membership_bidirectional [OF r, of "''X''" 0 0 "''X''"]
      membership_bidirectional [OF r, of "''Y''" 0 0 "''Y''"] j l
    by blast+
  show ?thesis
    unfolding j l using r here there joined left mj ml m by simp
qed

text \<open>
  Claim C5. In a reachable state, \<open>unregister\<close> removes the connection record and
  removes the connection from the member set of every channel; a channel of which it
  was the sole member has no record afterwards (its \<open>membersOf\<close> is empty) and no empty
  channel record is left behind; unregistering twice is the same as once, and
  unregistering an unknown connection changes nothing.
\<close>

theorem unregister_evicts_everywhere:
  assumes "reachable g cfg c"
  shows "connections (unregister cid c) cid = None
       \<and> (\<forall>ch. membersOf (unregister cid c) ch = membersOf c ch - {cid})
       \<and> (\<forall>ch. membersOf c ch = {cid} \<longrightarrow>
             channels (unregister cid c) ch = None \<and> membersOf (unregister cid c) ch = {})
       \<and> (\<forall>ch. channels (unregister cid c) ch \<noteq> Some {})
       \<and> unregister cid (unregister cid c) = unregister cid c
       \<and> (connections c cid = None \<longrightarrow> unregister cid c = c)"
proof -
  have inv: "registry_inv c" using assms by (rule reachable_inv)
  have bi: "\<And>ch. ch \<in> joinedOf c cid \<longleftrightarrow> cid \<in> membersOf c ch"
    using inv by (simp add: registry_inv_def)
  have gone: "connections (unregister cid c) cid = None"
    by (simp add: unregister_def split: option.splits)
  have mem: "\<And>ch. membersOf (unregister cid c) ch = membersOf c ch - {cid}"
    using bi by (auto simp: unregister_simps)
  have sole: "channels (unregister cid c) ch = None" if "membersOf c ch = {cid}" for ch
  proof -
    from that have "ch \<in> joinedOf c cid" using bi by simp
    moreover from that have "channels c ch = Some {cid}"
      by (auto simp: membersOf_def split: option.splits)
    ultimately show ?thesis by (simp add: unregister_simps evict_def)
  qed
  have nonempty: "\<And>ch. channels (unregister cid c) ch \<noteq> Some {}"
    using inv_unregister[OF inv, of cid] by (simp add: registry_inv_def)
  have idem: "unregister cid (unregister cid c) = unregister cid c"
    using gone by (rule unregister_unknown)
  show ?thesis
    using gone mem sole nonempty idem unregister_unknown[of c cid] by auto
qed

theorem unregister_evicts_everywhere_witness:
  "reachable \<lparr>g_windowMs = 1000, g_maxEvents = 3\<rparr> \<lparr>excludeSelf = True\<rparr>
     (run \<lparr>g_windowMs = 1000, g_maxEvents = 3\<rparr> \<lparr>excludeSelf = True\<rparr> init_core
        [(0, Register \<lparr>i_userId = ''u1'', i_username = ''ana''\<rparr> 11),
         (1, Register \<lparr>i_userId = ''u2'', i_username = ''bia''\<rparr> 12),
         (2, Join 0 ''X''), (3, Join 0 ''Y''), (4, Join 1 ''Y'')])
   \<and> membersOf (run \<lparr>g_windowMs = 1000, g_maxEvents = 3\<rparr> \<lparr>excludeSelf = True\<rparr> init_core
        [(0, Register \<lparr>i_userId = ''u1'', i_username = ''ana''\<rparr> 11),
         (1, Register \<lparr>i_userId = ''u2'', i_username = ''bia''\<rparr> 12),
         (2, Join 0 ''X''), (3, Join 0 ''Y''), (4, Join 1 ''Y'')]) ''X'' = {0}
   \<and> channels (unregister 0 (run \<lparr>g_windowMs = 1000, g_maxEvents = 3\<rparr> \<lparr>excludeSelf = True\<rparr> init_core
        [(0, Register \<lparr>i_userId = ''u1'', i_username = ''ana''\<rparr> 11),
         (1, Register \<lparr>i_userId = ''u2'', i_username = ''bia''\<rparr> 12),
         (2, Join 0 ''X''), (3, Join 0 ''Y''), (4, Join 1 ''Y'')])) ''X'' = None
   \<and> membersOf (unregister 0 (run \<lparr>g_windowMs = 1000, g_maxEvents = 3\<rparr> \<lparr>excludeSelf = True\<rparr> init_core
        [(0, Register \<lparr>i_userId = ''u1'', i_username = ''ana''\<rparr> 11),
         (1, Register \<lparr>i_userId = ''u2'', i_username = ''bia''\<rparr> 12),
         (2, Join 0 ''X''), (3, Join 0 ''Y''), (4, Join 1 ''Y'')])) ''Y'' = {1}
   \<and> connections (run \<lparr>g_windowMs = 1000, g_maxEvents = 3\<rparr> \<lparr>excludeSelf = True\<rparr> init_core
        [(0, Register \<lparr>i_userId = ''u1'', i_username = ''ana''\<rparr> 11),
         (1, Register \<lparr>i_userId = ''u2'', i_username = ''bia''\<rparr> 12),
         (2, Join 0 ''X''), (3, Join 0 ''Y''), (4, Join 1 ''Y'')]) 7 = None
   \<and> unregister 7 (run \<lparr>g_windowMs = 1000, g_maxEvents = 3\<rparr> \<lparr>excludeSelf = True\<rparr> init_core
        [(0, Register \<lparr>i_userId = ''u1'', i_username = ''ana''\<rparr> 11),
         (1, Register \<lparr>i_userId = ''u2'', i_username = ''bia''\<rparr> 12),
         (2, Join 0 ''X''), (3, Join 0 ''Y''), (4, Join 1 ''Y'')])
       = run \<lparr>g_windowMs = 1000, g_maxEvents = 3\<rparr> \<lparr>excludeSelf = True\<rparr> init_core
        [(0, Register \<lparr>i_userId = ''u1'', i_username = ''ana''\<rparr> 11),
         (1, Register \<lparr>i_userId = ''u2'', i_username = ''bia''\<rparr> 12),
         (2, Join 0 ''X''), (3, Join 0 ''Y''), (4, Join 1 ''Y'')]"
proof -
  let ?g = "\<lparr>g_windowMs = 1000, g_maxEvents = 3\<rparr>"
  let ?p = "\<lparr>excludeSelf = True\<rparr>"
  let ?c = "run ?g ?p init_core
        [(0, Register \<lparr>i_userId = ''u1'', i_username = ''ana''\<rparr> 11),
         (1, Register \<lparr>i_userId = ''u2'', i_username = ''bia''\<rparr> 12),
         (2, Join 0 ''X''), (3, Join 0 ''Y''), (4, Join 1 ''Y'')]"
  have r: "reachable ?g ?p ?c"
    by (rule reachable_run [OF reachable_init])
  have m: "membersOf ?c ''X'' = {0}" "membersOf ?c ''Y'' = {0, 1}"
    by (auto simp: run_def register_def join_def membersOf_def init_core_def)
  have u: "connections ?c 7 = None"
    by (simp add: run_def register_def join_def membersOf_def init_core_def)
  show ?thesis
    using r unregister_evicts_everywhere [OF r, of 0] unregister_evicts_everywhere [OF r, of 7] m u
    by auto
qed

section \<open>The message router and the rate guard\<close>

text \<open>
  Claim C3. \<open>publish\<close> fails with \<open>NotMemberError\<close> when the sender is not a member of the
  channel. Otherwise, with self-exclusion on, delivery is attempted to exactly the
  channel's current members but the sender: each of them whose transport write
  succeeds receives the event once, and no other connection receives anything.
\<close>

theorem publish_fanout:
  "(sender \<notin> membersOf c ch \<longrightarrow> publish cfg sender ch payload now broken c = Inl NotMemberError)
   \<and> (sender \<in> membersOf c ch \<and> excludeSelf cfg \<longrightarrow>
        (\<exists>d c'. publish cfg sender ch payload now broken c = Inr (d, c')
           \<and> attempted d = membersOf c ch - {sender}
           \<and> failed d = (membersOf c ch - {sender}) \<inter> broken
           \<and> (\<forall>r. outbox c' r =
                 (if r \<in> membersOf c ch - {sender} \<and> r \<notin> broken
                  then outbox c r @ [Event \<lparr>o_channelId = ch, o_senderId = sender,
                                            o_payload = payload, o_timestamp = now\<rparr>]
                  else outbox c r))
           \<and> (\<forall>y. membersOf c' y = membersOf c y)))"
  by (auto simp: publish_def membersOf_def Let_def)

theorem publish_fanout_witness:
  "(case publish \<lparr>excludeSelf = True\<rparr> 10 ''X'' ''hello'' 7 {}
           (init_core\<lparr>channels := [''X'' \<mapsto> {10, 11, 12}]\<rparr>) of
      Inl e \<Rightarrow> False
    | Inr (d, c') \<Rightarrow>
        attempted d = {11, 12} \<and> failed d = {} \<and> outbox c' 10 = []
        \<and> outbox c' 11 = [Event \<lparr>o_channelId = ''X'', o_senderId = 10, o_payload = ''hello'', o_timestamp = 7\<rparr>]
        \<and> outbox c' 12 = [Event \<lparr>o_channelId = ''X'', o_senderId = 10, o_payload = ''hello'', o_timestamp = 7\<rparr>]
        \<and> outbox c' 13 = [])
   \<and> publish \<lparr>excludeSelf = True\<rparr> 13 ''X'' ''hello'' 7 {}
       (init_core\<lparr>channels := [''X'' \<mapsto> {10, 11, 12}]\<rparr>) = Inl NotMemberError"
proof -
  let ?c = "init_core\<lparr>channels := [''X'' \<mapsto> {10, 11, 12}]\<rparr>"
  have m: "membersOf ?c ''X'' = {10, 11, 12}" by (simp add: membersOf_def)
  have hyp: "10 \<in> membersOf ?c ''X'' \<and> excludeSelf \<lparr>excludeSelf = True\<rparr>" by (simp add: m)
  obtain d c' where p: "publish \<lparr>excludeSelf = True\<rparr> 10 ''X'' ''hello'' 7 {} ?c = Inr (d, c')"
    and a: "attempted d = membersOf ?c ''X'' - {10}"
    and f: "failed d = (membersOf ?c ''X'' - {10}) \<inter> {}"
    and o: "\<And>r. outbox c' r = (if r \<in> membersOf ?c ''X'' - {10} \<and> r \<notin> {}
                  then outbox ?c r @ [Event \<lparr>o_channelId = ''X'', o_senderId = 10,
                                            o_payload = ''hello'', o_timestamp = 7\<rparr>]
                  else outbox ?c r)"
    using publish_fanout [of 10 ?c "''X''" "\<lparr>excludeSelf = True\<rparr>" "''hello''" 7 "{}"] hyp
    by blast
  have a': "attempted d = {11, 12}" unfolding a m by auto
  have n: "publish \<lparr>excludeSelf = True\<rparr> 13 ''X'' ''hello'' 7 {} ?c = Inl NotMemberError"
    using publish_fanout [of 13 ?c "''X''" "\<lparr>excludeSelf = True\<rparr>" "''hello''" 7 "{}"]
    by (simp add: m)
  show ?thesis unfolding p n by (simp add: a' f o membersOf_def init_core_def)
qed






lemma map_filter_snoc: "List.map_filter f (xs @ [x]) = List.map_filter f xs @ (case f x of None \<Rightarrow> [] | Some y \<Rightarrow> [y])"
  by (simp add: List.map_filter_def split: option.splits)

lemma observed_outbox_eq: "outbox c' r = outbox c r \<Longrightarrow> observed c' r s ch = observed c r s ch"
  by (simp add: observed_def)

lemma observed_signal: "observed (signal cid e c) r s ch = observed c r s ch"
  by (simp add: observed_def signal_simps map_filter_snoc)

lemma observed_admit: "observed (snd (admit g now cid c)) r s ch = observed c r s ch"
  by (simp add: observed_def admit_simps)

lemma observed_publish:
  assumes "publish cfg cid ch' p now broken c = Inr (d, c')"
  shows "observed c' r s ch =
           observed c r s ch @ (if r \<in> attempted d \<and> r \<notin> broken \<and> cid = s \<and> ch' = ch then [p] else [])"
  using assms
  by (auto simp: publish_def observed_def Let_def map_filter_snoc split: if_splits)

lemma observed_route_publish:
  "\<exists>zs. observed (snd (route_publish g cfg cid ch' p now broken c)) r s ch = observed c r s ch @ zs
        \<and> (zs = [] \<or> zs = [p] \<and> cid = s \<and> ch' = ch)"
proof (cases "admit g now cid c")
  case (Pair ok c1)
  have o1: "observed c1 r s ch = observed c r s ch"
    using observed_admit[of g now cid c r s ch] Pair by simp
  show ?thesis
  proof (cases ok)
    case False
    then show ?thesis using Pair o1 by (simp add: route_publish_def observed_signal)
  next
    case True
    show ?thesis
    proof (cases "publish cfg cid ch' p now broken c1")
      case (Inl e)
      then show ?thesis using Pair True o1 by (simp add: route_publish_def observed_signal)
    next
      case (Inr dc)
      obtain d c2 where dc: "dc = (d, c2)" by (cases dc)
      show ?thesis
        using Pair True o1 Inr dc observed_publish[of cfg cid ch' p now broken c1 d c2 r s ch]
        by (auto simp: route_publish_def)
    qed
  qed
qed

lemma observed_exec:
  "\<exists>zs. observed (exec g cfg c (now, x)) r s ch = observed c r s ch @ zs
        \<and> subseq zs (published s ch [(now, x)])"
proof (cases x)
  case (Register i h)
  then show ?thesis by (simp add: observed_def register_simps)
next
  case (Unregister cid)
  then show ?thesis by (simp add: observed_def unregister_simps)
next
  case (Touch cid)
  then show ?thesis by (simp add: observed_def touch_simps)
next
  case (Join cid ch')
  show ?thesis
  proof (cases "join cid ch' c")
    case (Inl e)
    then show ?thesis using Join by (simp add: observed_signal)
  next
    case (Inr c')
    then show ?thesis using Join join_simps(6)[OF Inr] by (simp add: observed_def)
  qed
next
  case (Leave cid ch')
  show ?thesis
  proof (cases "leave cid ch' c")
    case (Inl e)
    then show ?thesis using Leave by (simp add: observed_signal)
  next
    case (Inr c')
    then show ?thesis using Leave leave_simps(6)[OF Inr] by (simp add: observed_def)
  qed
next
  case (Publish cid ch' p broken)
  then show ?thesis
    using observed_route_publish[of g cfg cid ch' p now broken c r s ch] by auto
qed

lemma published_append: "published s ch (xs @ ys) = published s ch xs @ published s ch ys"
  by (induction s ch xs rule: published.induct) auto

lemma observed_run:
  "\<exists>zs. observed (run g cfg c trace) r s ch = observed c r s ch @ zs
        \<and> subseq zs (published s ch trace)"
proof (induction trace arbitrary: c)
  case Nil
  then show ?case by (simp add: run_def)
next
  case (Cons x xs)
  obtain now y where x: "x = (now, y)" by (cases x)
  obtain zs where zs: "observed (exec g cfg c (now, y)) r s ch = observed c r s ch @ zs"
      "subseq zs (published s ch [(now, y)])"
    using observed_exec by blast
  obtain ws where ws: "observed (run g cfg (exec g cfg c (now, y)) xs) r s ch
        = observed (exec g cfg c (now, y)) r s ch @ ws" "subseq ws (published s ch xs)"
    using Cons.IH by blast
  have "published s ch (x # xs) = published s ch [(now, y)] @ published s ch xs"
    using published_append[of s ch "[(now, y)]" xs] x by simp
  then have "subseq (zs @ ws) (published s ch (x # xs))"
    using zs(2) ws(2) by (simp add: list_emb_append_mono)
  moreover have "observed (run g cfg c (x # xs)) r s ch = observed c r s ch @ zs @ ws"
    using zs(1) ws(1) x by (simp add: run_def)
  ultimately show ?case by blast
qed

lemma observed_publish_all:
  assumes "s \<in> membersOf c ch" and "r \<in> membersOf c ch" and "r \<noteq> s"
    and "\<forall>(p, now, broken) \<in> set ps. r \<notin> broken"
  shows "observed (publish_all cfg s ch ps c) r s ch = observed c r s ch @ map fst ps"
  using assms
proof (induction ps arbitrary: c)
  case Nil
  then show ?case by simp
next
  case (Cons x ps)
  obtain p now broken where x: "x = (p, now, broken)" by (cases x)
  obtain d c' where pub: "publish cfg s ch p now broken c = Inr (d, c')"
    and att: "r \<in> attempted d"
    using Cons.prems(1-3) by (auto simp: publish_def Let_def)
  have m: "membersOf c' ch = membersOf c ch" using pub by (simp add: publish_simps)
  have nb: "r \<notin> broken" using Cons.prems(4) x by auto
  have o: "observed c' r s ch = observed c r s ch @ [p]"
    using observed_publish[OF pub, of r s ch] att nb by simp
  have "observed (publish_all cfg s ch ps c') r s ch = observed c' r s ch @ map fst ps"
    using Cons.IH[of c'] Cons.prems m by simp
  then show ?case using pub o x by simp
qed

text \<open>
  Claim C6. Whatever operations run, by whichever connections, what a recipient has
  observed from one sender on one channel grows only at its end, by a subsequence of
  that sender's publish requests on that channel in the order of their invocation;
  and when the recipient stays a member and its transport writes succeed, it observes
  all of the sender's events, in exactly the order of the \<open>publish\<close> calls. The
  statement is per sender and channel: it relates no two senders.
\<close>

theorem per_sender_channel_order:
  "(\<exists>zs. observed (run g cfg c trace) r s ch = observed c r s ch @ zs
          \<and> subseq zs (published s ch trace))
   \<and> (s \<in> membersOf c ch \<and> r \<in> membersOf c ch \<and> r \<noteq> s
        \<and> (\<forall>(p, now, broken) \<in> set ps. r \<notin> broken) \<longrightarrow>
      observed (publish_all cfg s ch ps c) r s ch = observed c r s ch @ map fst ps)"
proof (intro conjI impI)
  show "\<exists>zs. observed (run g cfg c trace) r s ch = observed c r s ch @ zs
          \<and> subseq zs (published s ch trace)"
    by (rule observed_run)
next
  assume "s \<in> membersOf c ch \<and> r \<in> membersOf c ch \<and> r \<noteq> s
        \<and> (\<forall>(p, now, broken) \<in> set ps. r \<notin> broken)"
  then show "observed (publish_all cfg s ch ps c) r s ch = observed c r s ch @ map fst ps"
    using observed_publish_all[of s c ch r ps cfg] by simp
qed

theorem per_sender_channel_order_witness:
  "observed (publish_all \<lparr>excludeSelf = True\<rparr> 0 ''X''
       [(''e1'', 1, {}), (''e2'', 2, {}), (''e3'', 3, {})]
       (init_core\<lparr>channels := [''X'' \<mapsto> {0, 1}]\<rparr>)) 1 0 ''X'' = [''e1'', ''e2'', ''e3'']"
  using per_sender_channel_order
    [of "\<lparr>g_windowMs = 1000, g_maxEvents = 3\<rparr>" "\<lparr>excludeSelf = True\<rparr>" "init_core\<lparr>channels := [''X'' \<mapsto> {0, 1}]\<rparr>" "[]" 1 0 "''X''"
        "[(''e1'', 1, {}), (''e2'', 2, {}), (''e3'', 3, {})]"]
  by (simp add: membersOf_def observed_def init_core_def List.map_filter_def)

end
